theory Spec2Isabelle
  imports Main "HOL-Library.Sublist"
begin

section \<open>The Drizzle schema generator of the better-auth CLI\<close>

text \<open>
  A shallow embedding of \<^verbatim>\<open>packages/cli/src/generators/drizzle.ts\<close>.
  JavaScript strings are modelled as \<^typ>\<open>string\<close>; a template literal becomes a
  concatenation of its pieces, in the order the template has them. An exception is
  the left injection of a sum; objects whose keys are enumerated (the schema, the
  fields of a table) are lists of key/value pairs in enumeration order.
\<close>

subsection \<open>Strings\<close>

text \<open>The text \<^verbatim>\<open>'${s}'\<close>: \<open>s\<close> between two single quotes.\<close>

definition quoted :: "string \<Rightarrow> string" where
  \<open>quoted s = [CHR 0x27] @ s @ [CHR 0x27]\<close>

text \<open>A run of \<open>n\<close> tab characters (the indentation inside the table template).\<close>

definition tabs :: "nat \<Rightarrow> string" where
  \<open>tabs n = replicate n (CHR 0x09)\<close>

text \<open>The character class \<^verbatim>\<open>[A-Z]\<close> of the regular expression, by character code.\<close>

definition isUpperAZ :: "char \<Rightarrow> bool" where
  \<open>isUpperAZ c = (65 \<le> (of_char c :: nat) \<and> (of_char c :: nat) \<le> 90)\<close>

text \<open>
  \<^verbatim>\<open>letter.toLowerCase()\<close> on one character. The generator applies it to
  matches of \<^verbatim>\<open>[A-Z]\<close> only, where it adds 32 to the character code; every
  other ASCII character is its own lower case.
\<close>

definition toLowerCase :: "char \<Rightarrow> char" where
  \<open>toLowerCase c = (if isUpperAZ c then char_of (of_char c + (32 :: nat)) else c)\<close>

text \<open>
  \<^verbatim>\<open>str.replace(/[A-Z]/g, (letter) => `_${letter.toLowerCase()}`)\<close>: the global
  replacement scans the string once, left to right.
\<close>

fun replaceUpper :: "string \<Rightarrow> string" where
  \<open>replaceUpper [] = []\<close>
| \<open>replaceUpper (c # cs) =
     (if isUpperAZ c then CHR ''_'' # toLowerCase c # replaceUpper cs
      else c # replaceUpper cs)\<close>

text \<open>
  \<^verbatim>\<open>convertToSnakeCase(str, camelCase?)\<close>. The optional flag is tested for
  truthiness only, so an absent flag is \<open>False\<close>.
\<close>

definition convertToSnakeCase :: "string \<Rightarrow> bool \<Rightarrow> string" where
  \<open>convertToSnakeCase str camelCase = (if camelCase then str else replaceUpper str)\<close>

text \<open>\<^verbatim>\<open>Array.prototype.join\<close> on an array of strings.\<close>

fun join :: "string \<Rightarrow> string list \<Rightarrow> string" where
  \<open>join sep [] = []\<close>
| \<open>join sep [x] = x\<close>
| \<open>join sep (x # y # ys) = x @ sep @ join sep (y # ys)\<close>

text \<open>\<^verbatim>\<open>String.prototype.trim\<close>, on the ASCII white space characters.\<close>

definition isWhiteSpace :: "char \<Rightarrow> bool" where
  \<open>isWhiteSpace c = (c = CHR '' '' \<or> (9 \<le> (of_char c :: nat) \<and> (of_char c :: nat) \<le> 13))\<close>

definition trim :: "string \<Rightarrow> string" where
  \<open>trim s = rev (dropWhile isWhiteSpace (rev (dropWhile isWhiteSpace s)))\<close>

text \<open>
  \<^verbatim>\<open>String(n)\<close> for an integer-valued number: its decimal digits, with a
  minus sign when negative.
\<close>

fun digits :: "nat \<Rightarrow> string" where
  \<open>digits n = (if n < 10 then [char_of (48 + n)] else digits (n div 10) @ [char_of (48 + n mod 10)])\<close>

definition stringOfInt :: "int \<Rightarrow> string" where
  \<open>stringOfInt i = (if i < 0 then CHR ''-'' # digits (nat (- i)) else digits (nat i))\<close>

subsection \<open>Data model\<close>

text \<open>The \<^verbatim>\<open>provider\<close> of the adapter: \<^verbatim>\<open>"sqlite" | "mysql" | "pg"\<close>.\<close>

datatype provider = Sqlite | Mysql | Pg

text \<open>The text \<^verbatim>\<open>${databaseType}\<close>.\<close>

fun providerName :: "provider \<Rightarrow> string" where
  \<open>providerName Sqlite = ''sqlite''\<close>
| \<open>providerName Mysql = ''mysql''\<close>
| \<open>providerName Pg = ''pg''\<close>

text \<open>
  The type of a field, as \<^verbatim>\<open>getType\<close> reads it. The six keys of the type map are
  \<^verbatim>\<open>"string" | "number" | "boolean" | "date" | "number[]" | "string[]"\<close>; the
  type assertion of lines 68 to 73 is not checked when the program runs, so
  \<^verbatim>\<open>field.type\<close> may hold any other value as well. \<open>TOther\<close> stands for a value
  for which \<^verbatim>\<open>typeMap[type]\<close> is undefined.
\<close>

datatype field_type =
  TString | TNumber | TBoolean | TDate | TNumberArray | TStringArray | TOther

text \<open>
  Modelled from the spec: the declaration of \<^verbatim>\<open>FieldAttribute\<close> (imported from
  \<^verbatim>\<open>better-auth/db\<close>) is not among the sources. A default value is a literal
  (a string, a number, a boolean) or a function. A function carries the text that
  \<^verbatim>\<open>`${f}`\<close> renders for it; numbers are the integer-valued ones of magnitude
  below ten to the power 21, which a template literal renders in decimal digits.
\<close>

datatype default_value =
  DFunction string
| DString string
| DNumber int
| DBoolean bool

text \<open>JavaScript truthiness of a default value, as \<^verbatim>\<open>if (attr.defaultValue)\<close> tests it.\<close>

fun truthy :: "default_value \<Rightarrow> bool" where
  \<open>truthy (DFunction src) = True\<close>
| \<open>truthy (DString s) = (s \<noteq> [])\<close>
| \<open>truthy (DNumber n) = (n \<noteq> 0)\<close>
| \<open>truthy (DBoolean b) = b\<close>

text \<open>The text \<^verbatim>\<open>${attr.defaultValue}\<close>.\<close>

fun render :: "default_value \<Rightarrow> string" where
  \<open>render (DFunction src) = src\<close>
| \<open>render (DString s) = s\<close>
| \<open>render (DNumber n) = stringOfInt n\<close>
| \<open>render (DBoolean b) = (if b then ''true'' else ''false'')\<close>

text \<open>
  Modelled from the spec: \<^verbatim>\<open>references\<close> of a field attribute,
  \<^verbatim>\<open>{ model, field, onDelete? }\<close>.
\<close>

record reference =
  model :: string
  field :: string
  onDelete :: "string option"

text \<open>
  Modelled from the spec: \<^verbatim>\<open>FieldAttribute\<close>. The optional flags
  \<^verbatim>\<open>required\<close>, \<^verbatim>\<open>unique\<close> and \<^verbatim>\<open>bigint\<close> are only tested for
  truthiness, so an absent flag is \<open>False\<close>; an absent \<^verbatim>\<open>defaultValue\<close> or
  \<^verbatim>\<open>references\<close> is \<open>None\<close>.
\<close>

record field_attribute =
  type :: field_type
  required :: bool
  unique :: bool
  bigint :: bool
  defaultValue :: "default_value option"
  references :: "reference option"

text \<open>
  Modelled from the spec: a table of \<^verbatim>\<open>BetterAuthDbSchema\<close>, and the schema
  itself. Both objects are enumerated in insertion order.
\<close>

record table =
  modelName :: string
  tableFields :: "(string \<times> field_attribute) list"

type_synonym schema = "(string \<times> table) list"

text \<open>
  Modelled from the spec: \<^verbatim>\<open>adapter.options\<close>, which may be undefined as a
  whole (\<open>None\<close>), and \<^verbatim>\<open>options.advanced?.database?.useNumberId\<close> of
  \<^verbatim>\<open>BetterAuthOptions\<close>.
\<close>

record adapter_options =
  provider :: "provider option"
  camelCase :: bool
  usePlural :: bool

record database_options =
  useNumberId :: bool

record advanced_options =
  database :: "database_options option"

record better_auth_options =
  advanced :: "advanced_options option"

text \<open>The optional chains of the source.\<close>

definition optProvider :: "adapter_options option \<Rightarrow> provider option" where
  \<open>optProvider adapterOptions =
     (case adapterOptions of None \<Rightarrow> None | Some a \<Rightarrow> provider a)\<close>

definition optCamelCase :: "adapter_options option \<Rightarrow> bool" where
  \<open>optCamelCase adapterOptions =
     (case adapterOptions of None \<Rightarrow> False | Some a \<Rightarrow> camelCase a)\<close>

definition optUseNumberId :: "better_auth_options \<Rightarrow> bool" where
  \<open>optUseNumberId options =
     (case advanced options of
        None \<Rightarrow> False
      | Some a \<Rightarrow> (case database a of None \<Rightarrow> False | Some d \<Rightarrow> useNumberId d))\<close>

text \<open>
  The two \<^verbatim>\<open>throw new Error(...)\<close> statements carry the same message; the
  error value records which statement threw. \<open>TypeError\<close> is the fault of the lookup
  \<^verbatim>\<open>typeMap[type][databaseType]\<close> (line 121) when \<^verbatim>\<open>typeMap[type]\<close> is
  undefined.
\<close>

datatype error = ProviderUndefinedAtEntry | ProviderUndefinedInGetType | TypeError


text \<open>The result object of the generator.\<close>

record generated =
  code :: string
  fileName :: string
  overwrite :: bool

subsection \<open>\<^verbatim>\<open>getModelName\<close>\<close>

definition getModelName :: "string \<Rightarrow> adapter_options option \<Rightarrow> string" where
  \<open>getModelName name adapterOptions =
     (if (case adapterOptions of None \<Rightarrow> False | Some a \<Rightarrow> usePlural a)
      then name @ ''s'' else name)\<close>

subsection \<open>The type mapper \<^verbatim>\<open>getType\<close>\<close>

text \<open>The test \<^verbatim>\<open>field.references?.field === "id"\<close>.\<close>

definition referencesId :: "field_attribute \<Rightarrow> bool" where
  \<open>referencesId attr =
     (case references attr of None \<Rightarrow> False | Some r \<Rightarrow> field r = ''id'')\<close>

text \<open>
  The object \<^verbatim>\<open>typeMap\<close> (lines 74 to 120) and the lookup
  \<^verbatim>\<open>typeMap[type][databaseType]\<close>, for the column name \<open>name\<close>. The result
  is \<open>None\<close> where \<^verbatim>\<open>typeMap[type]\<close> is undefined and reading its property
  throws.
\<close>

fun typeMap :: "string \<Rightarrow> field_attribute \<Rightarrow> field_type \<Rightarrow> provider \<Rightarrow> string option" where
  \<open>typeMap name attr TString Sqlite = Some (''text('' @ quoted name @ '')'')\<close>
| \<open>typeMap name attr TString Pg = Some (''text('' @ quoted name @ '')'')\<close>
| \<open>typeMap name attr TString Mysql =
     Some (if unique attr then ''varchar('' @ quoted name @ '', { length: 255 })''
           else if references attr \<noteq> None then ''varchar('' @ quoted name @ '', { length: 36 })''
           else ''text('' @ quoted name @ '')'')\<close>
| \<open>typeMap name attr TBoolean Sqlite = Some (''integer('' @ quoted name @ '', { mode: 'boolean' })'')\<close>
| \<open>typeMap name attr TBoolean Pg = Some (''boolean('' @ quoted name @ '')'')\<close>
| \<open>typeMap name attr TBoolean Mysql = Some (''boolean('' @ quoted name @ '')'')\<close>
| \<open>typeMap name attr TNumber Sqlite = Some (''integer('' @ quoted name @ '')'')\<close>
| \<open>typeMap name attr TNumber Pg =
     Some (if bigint attr then ''bigint('' @ quoted name @ '', { mode: 'number' })''
           else ''integer('' @ quoted name @ '')'')\<close>
| \<open>typeMap name attr TNumber Mysql =
     Some (if bigint attr then ''bigint('' @ quoted name @ '', { mode: 'number' })''
           else ''int('' @ quoted name @ '')'')\<close>
| \<open>typeMap name attr TDate Sqlite = Some (''integer('' @ quoted name @ '', { mode: 'timestamp' })'')\<close>
| \<open>typeMap name attr TDate Pg = Some (''timestamp('' @ quoted name @ '')'')\<close>
| \<open>typeMap name attr TDate Mysql = Some (''timestamp('' @ quoted name @ '')'')\<close>
| \<open>typeMap name attr TNumberArray Sqlite = Some (''integer('' @ quoted name @ '').array()'')\<close>
| \<open>typeMap name attr TNumberArray Pg =
     Some (if bigint attr then ''bigint('' @ quoted name @ '', { mode: 'number' }).array()''
           else ''integer('' @ quoted name @ '').array()'')\<close>
| \<open>typeMap name attr TNumberArray Mysql =
     Some (if bigint attr then ''bigint('' @ quoted name @ '', { mode: 'number' }).array()''
           else ''int('' @ quoted name @ '').array()'')\<close>
| \<open>typeMap name attr TStringArray Sqlite = Some (''text('' @ quoted name @ '').array()'')\<close>
| \<open>typeMap name attr TStringArray Pg = Some (''text('' @ quoted name @ '').array()'')\<close>
| \<open>typeMap name attr TStringArray Mysql = Some (''text('' @ quoted name @ '').array()'')\<close>
| \<open>typeMap name attr TOther db = None\<close>

text \<open>
  \<^verbatim>\<open>getType(name, field)\<close>, a closure over \<^verbatim>\<open>databaseType\<close>,
  \<^verbatim>\<open>adapter.options\<close> and \<^verbatim>\<open>options\<close>. Inside the closure the
  provider still has the type \<^verbatim>\<open>... | undefined\<close>, so it is passed as an
  option and the first statement tests it.
\<close>

definition getType ::
  "better_auth_options \<Rightarrow> adapter_options option \<Rightarrow> provider option \<Rightarrow>
   string \<Rightarrow> field_attribute \<Rightarrow> error + string" where
  \<open>getType options adapterOptions databaseType key attr =
     (case databaseType of
        None \<Rightarrow> Inl ProviderUndefinedInGetType
      | Some db \<Rightarrow>
          (let name = convertToSnakeCase key (optCamelCase adapterOptions) in
           if referencesId attr then
             (if optUseNumberId options then
                (if db = Pg then Inr (''integer('' @ quoted name @ '')'')
                 else if db = Mysql then Inr (''int('' @ quoted name @ '')'')
                 else Inr (''integer('' @ quoted name @ '')''))
              else if (case references attr of None \<Rightarrow> False | Some r \<Rightarrow> field r \<noteq> [])
                      \<and> db = Mysql
                then Inr (''varchar('' @ quoted name @ '', { length: 36 })'')
              else Inr (''text('' @ quoted name @ '')''))
           else (case typeMap name attr (type attr) db of
                   None \<Rightarrow> Inl TypeError
                 | Some frag \<Rightarrow> Inr frag)))\<close>

subsection \<open>The table emitter\<close>

text \<open>The primary key column \<^verbatim>\<open>id\<close> (lines 124 to 140).\<close>

definition idColumn :: "better_auth_options \<Rightarrow> provider \<Rightarrow> string" where
  \<open>idColumn options db =
     (if optUseNumberId options then
        (if db = Pg then ''serial("id").primaryKey()''
         else ''int("id").autoincrement.primaryKey()'')
      else
        (if db = Mysql then ''varchar('id', { length: 36 }).primaryKey()''
         else if db = Pg then ''text('id').primaryKey()''
         else ''text('id').primaryKey()''))\<close>

text \<open>The default modifier appended to the type (lines 151 to 159).\<close>

definition defaultModifier :: "field_attribute \<Rightarrow> string" where
  \<open>defaultModifier attr =
     (case defaultValue attr of
        None \<Rightarrow> []
      | Some d \<Rightarrow>
          if truthy d then
            (case d of
               DFunction src \<Rightarrow> ''.$defaultFn('' @ render d @ '')''
             | DString s \<Rightarrow> ''.default("'' @ render d @ ''")''
             | DNumber n \<Rightarrow> ''.default('' @ render d @ '')''
             | DBoolean b \<Rightarrow> ''.default('' @ render d @ '')'')
          else [])\<close>

text \<open>The \<^verbatim>\<open>.references(...)\<close> modifier (lines 163 to 170).\<close>

definition referencesModifier :: "adapter_options option \<Rightarrow> field_attribute \<Rightarrow> string" where
  \<open>referencesModifier adapterOptions attr =
     (case references attr of
        None \<Rightarrow> []
      | Some r \<Rightarrow>
          ''.references(()=> '' @ getModelName (model r) adapterOptions @ ''.'' @ field r @
          '', { onDelete: '' @
          quoted (case onDelete r of
                    None \<Rightarrow> ''cascade''
                  | Some p \<Rightarrow> if p = [] then ''cascade'' else p) @
          '' })'')\<close>

text \<open>The callback of \<^verbatim>\<open>Object.keys(fields).map\<close>: one column of the table.\<close>

definition fieldColumn ::
  "better_auth_options \<Rightarrow> adapter_options option \<Rightarrow> provider option \<Rightarrow>
   string \<Rightarrow> field_attribute \<Rightarrow> error + string" where
  \<open>fieldColumn options adapterOptions databaseType key attr =
     (case getType options adapterOptions databaseType key attr of
        Inl e \<Rightarrow> Inl e
      | Inr ty \<Rightarrow>
          Inr (key @ '': '' @ (ty @ defaultModifier attr) @
               (if required attr then ''.notNull()'' else []) @
               (if unique attr then ''.unique()'' else []) @
               referencesModifier adapterOptions attr))\<close>

text \<open>\<^verbatim>\<open>Array.prototype.map\<close> with a callback that may throw: the first exception ends it.\<close>

fun mapThrowing :: "('a \<Rightarrow> error + 'b) \<Rightarrow> 'a list \<Rightarrow> error + 'b list" where
  \<open>mapThrowing f [] = Inr []\<close>
| \<open>mapThrowing f (x # xs) =
     (case f x of
        Inl e \<Rightarrow> Inl e
      | Inr y \<Rightarrow> (case mapThrowing f xs of Inl e \<Rightarrow> Inl e | Inr ys \<Rightarrow> Inr (y # ys)))\<close>

text \<open>The template \<^verbatim>\<open>schema\<close> of one table (lines 142 to 174).\<close>

definition tableSchema ::
  "better_auth_options \<Rightarrow> adapter_options option \<Rightarrow> provider \<Rightarrow> table \<Rightarrow> error + string" where
  \<open>tableSchema options adapterOptions db tbl =
     (let name = getModelName (modelName tbl) adapterOptions in
      case mapThrowing (\<lambda>(key, attr). fieldColumn options adapterOptions (Some db) key attr)
             (tableFields tbl) of
        Inl e \<Rightarrow> Inl e
      | Inr columns \<Rightarrow>
          Inr (''export const '' @ name @ '' = '' @ providerName db @ ''Table("'' @
               convertToSnakeCase name (optCamelCase adapterOptions) @ ''", {\<newline>'' @
               tabs 5 @ ''id: '' @ idColumn options db @ '',\<newline>'' @
               tabs 5 @ join '',\<newline> '' columns @ ''\<newline>'' @
               tabs 4 @ ''});''))\<close>

text \<open>The loop \<^verbatim>\<open>for (const tableKey in tables)\<close>, appending to \<^verbatim>\<open>code\<close>.\<close>

fun emitTables ::
  "better_auth_options \<Rightarrow> adapter_options option \<Rightarrow> provider \<Rightarrow> string \<Rightarrow> schema \<Rightarrow>
   error + string" where
  \<open>emitTables options adapterOptions db acc [] = Inr acc\<close>
| \<open>emitTables options adapterOptions db acc ((tableKey, tbl) # tables) =
     (case tableSchema options adapterOptions db tbl of
        Inl e \<Rightarrow> Inl e
      | Inr schema \<Rightarrow>
          emitTables options adapterOptions db (acc @ ''\<newline>'' @ schema @ ''\<newline>'') tables)\<close>

subsection \<open>The import resolver \<^verbatim>\<open>generateImport\<close>\<close>

definition hasBigint :: "schema \<Rightarrow> bool" where
  \<open>hasBigint tables =
     list_ex (\<lambda>(tableKey, tbl). list_ex (\<lambda>(key, attr). bigint attr) (tableFields tbl)) tables\<close>

text \<open>The array \<^verbatim>\<open>imports\<close> after its six \<^verbatim>\<open>push\<close> calls.\<close>

definition importCandidates :: "provider \<Rightarrow> schema \<Rightarrow> better_auth_options \<Rightarrow> string list" where
  \<open>importCandidates db tables options =
     [providerName db @ ''Table'',
      (if db = Mysql then ''varchar, text'' else if db = Pg then ''text'' else ''text''),
      (if hasBigint tables then (if db \<noteq> Sqlite then ''bigint'' else []) else []),
      (if db \<noteq> Sqlite then ''timestamp, boolean'' else []),
      (if db = Mysql then ''int'' else ''integer''),
      (if optUseNumberId options then (if db = Pg then ''serial'' else []) else [])]\<close>

text \<open>The symbols that survive \<^verbatim>\<open>.map((x) => x.trim()).filter((x) => x !== "")\<close>.\<close>

definition importSymbols :: "provider \<Rightarrow> schema \<Rightarrow> better_auth_options \<Rightarrow> string list" where
  \<open>importSymbols db tables options =
     filter (\<lambda>x. x \<noteq> []) (map trim (importCandidates db tables options))\<close>

definition generateImport :: "provider \<Rightarrow> schema \<Rightarrow> better_auth_options \<Rightarrow> string" where
  \<open>generateImport db tables options =
     ''import { '' @ join '', '' (importSymbols db tables options) @
     '' } from "drizzle-orm/'' @ providerName db @ ''-core";\<newline>''\<close>

subsection \<open>The generator\<close>

text \<open>
  \<^verbatim>\<open>generateDrizzleSchema({ options, file, adapter })\<close>. Its collaborators are
  parameters: \<open>format\<close> is \<^verbatim>\<open>prettier.format\<close> with the TypeScript parser,
  \<open>existsSync\<close> is the file system probe, \<open>tables\<close> is the value of
  \<^verbatim>\<open>getAuthTables(options)\<close>.
\<close>

definition generateDrizzleSchema ::
  "(string \<Rightarrow> string) \<Rightarrow> (string \<Rightarrow> bool) \<Rightarrow> schema \<Rightarrow>
   better_auth_options \<Rightarrow> string option \<Rightarrow> adapter_options option \<Rightarrow> error + generated" where
  \<open>generateDrizzleSchema format existsSync tables options file adapterOptions =
     (let filePath = (case file of
                        None \<Rightarrow> ''./auth-schema.ts''
                      | Some f \<Rightarrow> if f = [] then ''./auth-schema.ts'' else f);
          databaseType = optProvider adapterOptions
      in case databaseType of
           None \<Rightarrow> Inl ProviderUndefinedAtEntry
         | Some db \<Rightarrow>
             (let fileExist = existsSync filePath in
              case emitTables options adapterOptions db (generateImport db tables options) tables of
                Inl e \<Rightarrow> Inl e
              | Inr text \<Rightarrow>
                  Inr \<lparr>code = format text, fileName = filePath, overwrite = fileExist\<rparr>))\<close>

subsection \<open>Example inputs\<close>

text \<open>The schema of the end-to-end scenario: one table \<^verbatim>\<open>user\<close> with a required string field \<^verbatim>\<open>name\<close>.\<close>

definition userSchema :: schema where
  \<open>userSchema =
     [(''user'',
       \<lparr>modelName = ''user'',
        tableFields =
          [(''name'', \<lparr>type = TString, required = True, unique = False, bigint = False,
                       defaultValue = None, references = None\<rparr>)]\<rparr>)]\<close>

text \<open>Adapter options with the provider \<^verbatim>\<open>pg\<close> and nothing else set.\<close>

definition pgAdapter :: "adapter_options option" where
  \<open>pgAdapter = Some \<lparr>provider = Some Pg, camelCase = False, usePlural = False\<rparr>\<close>

text \<open>Adapter options with the provider \<^verbatim>\<open>mysql\<close> and nothing else set.\<close>

definition mysqlAdapter :: "adapter_options option" where
  \<open>mysqlAdapter = Some \<lparr>provider = Some Mysql, camelCase = False, usePlural = False\<rparr>\<close>


text \<open>
  The fields, tables and schemas of the data model of the spec: a field has one of
  the six types of the type map, or it references an \<^verbatim>\<open>id\<close> (and then its type is
  never looked up).
\<close>

definition mappedField :: "field_attribute \<Rightarrow> bool" where
  \<open>mappedField attr = (referencesId attr \<or> type attr \<noteq> TOther)\<close>

definition mappedTable :: "table \<Rightarrow> bool" where
  \<open>mappedTable tbl = list_all (\<lambda>(key, attr). mappedField attr) (tableFields tbl)\<close>

definition mappedSchema :: "schema \<Rightarrow> bool" where
  \<open>mappedSchema tables = list_all (\<lambda>(tableKey, tbl). mappedTable tbl) tables\<close>

text \<open>The options object \<^verbatim>\<open>{}\<close>.\<close>

definition emptyOptions :: better_auth_options where
  \<open>emptyOptions = \<lparr>advanced = None\<rparr>\<close>

text \<open>Options that set \<^verbatim>\<open>advanced.database.useNumberId\<close>.\<close>

definition numberIdOptions :: better_auth_options where
  \<open>numberIdOptions = \<lparr>advanced = Some \<lparr>database = Some \<lparr>useNumberId = True\<rparr>\<rparr>\<rparr>\<close>

text \<open>A formatter that leaves the text as it is.\<close>

definition unformatted :: "string \<Rightarrow> string" where
  \<open>unformatted s = s\<close>

text \<open>A file system in which no file exists.\<close>

definition noFile :: "string \<Rightarrow> bool" where
  \<open>noFile path = False\<close>

text \<open>A text without its white space, to compare texts up to layout.\<close>

definition withoutWhiteSpace :: "string \<Rightarrow> string" where
  \<open>withoutWhiteSpace s = filter (\<lambda>c. \<not> isWhiteSpace c) s\<close>

text \<open>A fragment with the array modifier appended, as the spec words the mapping of array types.\<close>

definition appendArray :: "error + string \<Rightarrow> error + string" where
  \<open>appendArray r = (case r of Inl e \<Rightarrow> Inl e | Inr frag \<Rightarrow> Inr (frag @ ''.array()''))\<close>

text \<open>A field of the given type that references \<^verbatim>\<open>user.email\<close>, not unique.\<close>

definition emailsField :: "field_type \<Rightarrow> field_attribute" where
  \<open>emailsField t = \<lparr>type = t, required = False, unique = False, bigint = False,
                     defaultValue = None,
                     references = Some \<lparr>model = ''user'', field = ''email'', onDelete = None\<rparr>\<rparr>\<close>

text \<open>A unique field of the given type with no other attribute set.\<close>

definition uniqueTags :: "field_type \<Rightarrow> field_attribute" where
  \<open>uniqueTags t = \<lparr>type = t, required = False, unique = True, bigint = False,
                    defaultValue = None, references = None\<rparr>\<close>


section \<open>Properties\<close>

subsection \<open>The identifier converter\<close>

lemma isUpperAZ_iff: \<open>isUpperAZ c \<longleftrightarrow> c \<in> set ''ABCDEFGHIJKLMNOPQRSTUVWXYZ''\<close>
proof
  assume \<open>isUpperAZ c\<close>
  then have \<open>(of_char c :: nat) \<in> set [65..<91]\<close>
    unfolding set_upt isUpperAZ_def by simp
  then have \<open>char_of (of_char c :: nat) \<in> set (map char_of [65..<91::nat])\<close>
    unfolding set_map by (rule imageI)
  moreover have \<open>map char_of [65..<91::nat] = ''ABCDEFGHIJKLMNOPQRSTUVWXYZ''\<close>
    by code_simp
  ultimately show \<open>c \<in> set ''ABCDEFGHIJKLMNOPQRSTUVWXYZ''\<close>
    by (simp only: char_of_char)
next
  assume \<open>c \<in> set ''ABCDEFGHIJKLMNOPQRSTUVWXYZ''\<close>
  then show \<open>isUpperAZ c\<close>
    by (auto simp add: isUpperAZ_def)
qed

lemma replaceUpper_concat:
  \<open>replaceUpper s = concat (map (\<lambda>c. if isUpperAZ c then [CHR ''_'', toLowerCase c] else [c]) s)\<close>
  by (induction s) simp_all

text \<open>
  Claim C8. The identifier converter is a total function. With the \<^verbatim>\<open>camelCase\<close>
  flag it returns the name unchanged; without it, every letter \<^verbatim>\<open>A\<close> to
  \<^verbatim>\<open>Z\<close> becomes an underscore followed by its lower-case form and every other
  character stays as it is, in place: a leading underscore is not trimmed, digits and
  underscores are kept. In particular \<^verbatim>\<open>userId\<close> becomes \<^verbatim>\<open>user_id\<close>
  without the flag and stays \<^verbatim>\<open>userId\<close> with it, and \<^verbatim>\<open>id\<close> stays
  \<^verbatim>\<open>id\<close>.
\<close>

theorem convertToSnakeCase_spec:
  \<open>convertToSnakeCase name True = name
   \<and> convertToSnakeCase name False =
       concat (map (\<lambda>c. if c \<in> set ''ABCDEFGHIJKLMNOPQRSTUVWXYZ''
                          then [CHR ''_'', toLowerCase c] else [c]) name)
   \<and> map toLowerCase ''ABCDEFGHIJKLMNOPQRSTUVWXYZ'' = ''abcdefghijklmnopqrstuvwxyz''
   \<and> convertToSnakeCase ''userId'' False = ''user_id''
   \<and> convertToSnakeCase ''userId'' True = ''userId''
   \<and> convertToSnakeCase ''id'' False = ''id''
   \<and> convertToSnakeCase ''Id'' False = ''_id''
   \<and> convertToSnakeCase ''a_B9'' False = ''a__b9''\<close>
proof -
  have \<open>convertToSnakeCase name True = name\<close>
    by (simp add: convertToSnakeCase_def)
  moreover have \<open>convertToSnakeCase name False =
       concat (map (\<lambda>c. if c \<in> set ''ABCDEFGHIJKLMNOPQRSTUVWXYZ''
                          then [CHR ''_'', toLowerCase c] else [c]) name)\<close>
    unfolding isUpperAZ_iff [symmetric]
    by (simp add: convertToSnakeCase_def replaceUpper_concat)
  moreover have \<open>map toLowerCase ''ABCDEFGHIJKLMNOPQRSTUVWXYZ'' = ''abcdefghijklmnopqrstuvwxyz''\<close>
    by code_simp
  moreover have \<open>convertToSnakeCase ''userId'' False = ''user_id''\<close>
    by code_simp
  moreover have \<open>convertToSnakeCase ''userId'' True = ''userId''\<close>
    by code_simp
  moreover have \<open>convertToSnakeCase ''id'' False = ''id''\<close>
    by code_simp
  moreover have \<open>convertToSnakeCase ''Id'' False = ''_id''\<close>
    by code_simp
  moreover have \<open>convertToSnakeCase ''a_B9'' False = ''a__b9''\<close>
    by code_simp
  ultimately show ?thesis by blast
qed

subsection \<open>Errors\<close>

lemma typeMap_None_iff: \<open>typeMap name attr t db = None \<longleftrightarrow> t = TOther\<close>
  by (cases t; cases db) simp_all

lemma getType_Some:
  \<open>\<exists>frag. getType options adapterOptions (Some db) key attr =
     (if mappedField attr then Inr frag else Inl TypeError)\<close>
proof (cases \<open>referencesId attr\<close>)
  case True
  then show ?thesis by (simp add: getType_def Let_def mappedField_def)
next
  case False
  show ?thesis
  proof (cases \<open>typeMap (convertToSnakeCase key (optCamelCase adapterOptions)) attr (type attr) db\<close>)
    case None
    then have \<open>type attr = TOther\<close> by (simp add: typeMap_None_iff)
    with None False show ?thesis by (simp add: getType_def Let_def mappedField_def)
  next
    case (Some frag)
    then have \<open>type attr \<noteq> TOther\<close> using typeMap_None_iff [of _ attr \<open>type attr\<close> db] by auto
    with Some False show ?thesis by (simp add: getType_def Let_def mappedField_def)
  qed
qed

lemma fieldColumn_Some:
  \<open>\<exists>col. fieldColumn options adapterOptions (Some db) key attr =
     (if mappedField attr then Inr col else Inl TypeError)\<close>
proof -
  obtain frag where \<open>getType options adapterOptions (Some db) key attr =
     (if mappedField attr then Inr frag else Inl TypeError)\<close>
    using getType_Some by blast
  then show ?thesis by (simp add: fieldColumn_def)
qed

lemma columns_Some:
  \<open>\<exists>columns. mapThrowing (\<lambda>(key, attr). fieldColumn options adapterOptions (Some db) key attr) kvs
      = (if list_all (\<lambda>(key, attr). mappedField attr) kvs then Inr columns else Inl TypeError)\<close>
proof (induction kvs)
  case Nil
  show ?case by simp
next
  case (Cons kv kvs)
  obtain key attr where kv: \<open>kv = (key, attr)\<close> by (cases kv)
  obtain col where col: \<open>fieldColumn options adapterOptions (Some db) key attr =
     (if mappedField attr then Inr col else Inl TypeError)\<close>
    using fieldColumn_Some by blast
  obtain columns where
    \<open>mapThrowing (\<lambda>(key, attr). fieldColumn options adapterOptions (Some db) key attr) kvs
      = (if list_all (\<lambda>(key, attr). mappedField attr) kvs then Inr columns else Inl TypeError)\<close>
    using Cons.IH by blast
  with col show ?case by (simp add: kv)
qed

lemma tableSchema_cases:
  \<open>\<exists>columns. tableSchema options adapterOptions db tbl =
     (if mappedTable tbl then
        Inr (''export const '' @ getModelName (modelName tbl) adapterOptions @ '' = '' @
             providerName db @ ''Table("'' @
             convertToSnakeCase (getModelName (modelName tbl) adapterOptions)
               (optCamelCase adapterOptions) @ ''", {\<newline>'' @
             tabs 5 @ ''id: '' @ idColumn options db @ '',\<newline>'' @
             tabs 5 @ join '',\<newline> '' columns @ ''\<newline>'' @ tabs 4 @ ''});'')
      else Inl TypeError)\<close>
proof -
  obtain columns where
    \<open>mapThrowing (\<lambda>(key, attr). fieldColumn options adapterOptions (Some db) key attr)
       (tableFields tbl) =
     (if mappedTable tbl then Inr columns else Inl TypeError)\<close>
    unfolding mappedTable_def using columns_Some by blast
  then show ?thesis by (auto simp add: tableSchema_def Let_def)
qed

lemma emitTables_cases:
  \<open>\<exists>out. emitTables options adapterOptions db acc tables =
     (if mappedSchema tables then Inr out else Inl TypeError)\<close>
proof (induction tables arbitrary: acc)
  case Nil
  show ?case by (simp add: mappedSchema_def)
next
  case (Cons entry tables)
  obtain tableKey tbl where entry: \<open>entry = (tableKey, tbl)\<close> by (cases entry)
  show ?case
  proof (cases \<open>mappedTable tbl\<close>)
    case True
    then obtain schema where schema: \<open>tableSchema options adapterOptions db tbl = Inr schema\<close>
      using tableSchema_cases [of options adapterOptions db tbl] by auto
    obtain out where
      \<open>emitTables options adapterOptions db (acc @ ''\<newline>'' @ schema @ ''\<newline>'') tables =
         (if mappedSchema tables then Inr out else Inl TypeError)\<close>
      using Cons.IH by blast
    with True schema show ?thesis
      by (auto simp add: entry mappedSchema_def)
  next
    case False
    then have \<open>tableSchema options adapterOptions db tbl = Inl TypeError\<close>
      using tableSchema_cases [of options adapterOptions db tbl] by auto
    with False show ?thesis by (simp add: entry mappedSchema_def)
  qed
qed




text \<open>
  Claim C9. The provider check inside \<^verbatim>\<open>getType\<close> is unreachable. With a defined
  provider, neither \<^verbatim>\<open>getType\<close> nor the column or the table built from it throws a
  configuration error; and the generator, for every input, never fails with the error
  of the inner check (with an undefined provider it has thrown at entry).
\<close>

theorem inner_provider_check_unreachable:
  \<open>getType options adapterOptions (Some db) key attr \<noteq> Inl ProviderUndefinedInGetType
   \<and> getType options adapterOptions (Some db) key attr \<noteq> Inl ProviderUndefinedAtEntry
   \<and> fieldColumn options adapterOptions (Some db) key attr \<noteq> Inl ProviderUndefinedInGetType
   \<and> fieldColumn options adapterOptions (Some db) key attr \<noteq> Inl ProviderUndefinedAtEntry
   \<and> tableSchema options adapterOptions db tbl \<noteq> Inl ProviderUndefinedInGetType
   \<and> tableSchema options adapterOptions db tbl \<noteq> Inl ProviderUndefinedAtEntry
   \<and> generateDrizzleSchema format existsSync tables options file adapterOptions
       \<noteq> Inl ProviderUndefinedInGetType\<close>
proof -
  have g: \<open>getType options adapterOptions (Some db) key attr \<noteq> Inl ProviderUndefinedInGetType
      \<and> getType options adapterOptions (Some db) key attr \<noteq> Inl ProviderUndefinedAtEntry\<close>
    using getType_Some [of options adapterOptions db key attr]
    by (cases \<open>mappedField attr\<close>) auto
  have f: \<open>fieldColumn options adapterOptions (Some db) key attr \<noteq> Inl ProviderUndefinedInGetType
      \<and> fieldColumn options adapterOptions (Some db) key attr \<noteq> Inl ProviderUndefinedAtEntry\<close>
    using fieldColumn_Some [of options adapterOptions db key attr]
    by (cases \<open>mappedField attr\<close>) auto
  have t: \<open>tableSchema options adapterOptions db tbl \<noteq> Inl ProviderUndefinedInGetType
      \<and> tableSchema options adapterOptions db tbl \<noteq> Inl ProviderUndefinedAtEntry\<close>
    using tableSchema_cases [of options adapterOptions db tbl]
    by (cases \<open>mappedTable tbl\<close>) auto
  have \<open>generateDrizzleSchema format existsSync tables options file adapterOptions
       \<noteq> Inl ProviderUndefinedInGetType\<close>
  proof (cases \<open>optProvider adapterOptions\<close>)
    case None
    then show ?thesis by (simp add: generateDrizzleSchema_def)
  next
    case (Some p)
    obtain out where
      \<open>emitTables options adapterOptions p (generateImport p tables options) tables =
         (if mappedSchema tables then Inr out else Inl TypeError)\<close>
      using emitTables_cases by blast
    with Some show ?thesis by (simp add: generateDrizzleSchema_def Let_def)
  qed
  with g f t show ?thesis by blast
qed

subsection \<open>The type mapper\<close>

text \<open>
  Claim C2. A field whose \<^verbatim>\<open>references.field\<close> is \<^verbatim>\<open>id\<close> never reaches the
  type map. Its fragment is, with \<^verbatim>\<open>useNumberId\<close>, \<^verbatim>\<open>integer\<close> for pg and
  sqlite and \<^verbatim>\<open>int\<close> for mysql; otherwise \<^verbatim>\<open>varchar\<close> of length 36 for
  mysql and \<^verbatim>\<open>text\<close> for sqlite and pg. The fragment does not change when the
  type, the bigint flag or any other attribute but the reference is replaced.
\<close>

theorem reference_to_id_overrides_type_map:
  assumes \<open>references attr = Some r\<close> and \<open>field r = ''id''\<close>
  shows \<open>getType options adapterOptions (Some db) key attr =
           Inr (if optUseNumberId options then
                  (case db of
                     Pg \<Rightarrow> ''integer('' @ quoted (convertToSnakeCase key (optCamelCase adapterOptions)) @ '')''
                   | Sqlite \<Rightarrow> ''integer('' @ quoted (convertToSnakeCase key (optCamelCase adapterOptions)) @ '')''
                   | Mysql \<Rightarrow> ''int('' @ quoted (convertToSnakeCase key (optCamelCase adapterOptions)) @ '')'')
                else
                  (case db of
                     Mysql \<Rightarrow> ''varchar('' @ quoted (convertToSnakeCase key (optCamelCase adapterOptions)) @ '', { length: 36 })''
                   | Sqlite \<Rightarrow> ''text('' @ quoted (convertToSnakeCase key (optCamelCase adapterOptions)) @ '')''
                   | Pg \<Rightarrow> ''text('' @ quoted (convertToSnakeCase key (optCamelCase adapterOptions)) @ '')''))
         \<and> getType options adapterOptions (Some db) key
              (attr\<lparr>type := t, bigint := b, unique := u, required := q, defaultValue := d\<rparr>)
            = getType options adapterOptions (Some db) key attr\<close>
  using assms by (cases db) (simp_all add: getType_def referencesId_def Let_def)

text \<open>
  The theorem at a mysql field \<^verbatim>\<open>userId\<close> that references \<^verbatim>\<open>user.id\<close> and
  has the bigint flag, with and without \<^verbatim>\<open>useNumberId\<close>.
\<close>

theorem reference_to_id_witness:
  \<open>getType numberIdOptions mysqlAdapter (Some Mysql) ''userId''
      \<lparr>type = TString, required = True, unique = False, bigint = True, defaultValue = None,
       references = Some \<lparr>model = ''user'', field = ''id'', onDelete = None\<rparr>\<rparr>
     = Inr ''int('user_id')''
   \<and> getType emptyOptions mysqlAdapter (Some Mysql) ''userId''
      \<lparr>type = TNumber, required = True, unique = False, bigint = True, defaultValue = None,
       references = Some \<lparr>model = ''user'', field = ''id'', onDelete = None\<rparr>\<rparr>
     = Inr ''varchar('user_id', { length: 36 })''\<close>
proof -
  have c: \<open>convertToSnakeCase ''userId'' False = ''user_id''\<close> by code_simp
  show ?thesis
    using reference_to_id_overrides_type_map [of
        \<open>\<lparr>type = TString, required = True, unique = False, bigint = True, defaultValue = None,
          references = Some \<lparr>model = ''user'', field = ''id'', onDelete = None\<rparr>\<rparr>\<close>
        \<open>\<lparr>model = ''user'', field = ''id'', onDelete = None\<rparr>\<close> numberIdOptions mysqlAdapter Mysql \<open>''userId''\<close>]
      reference_to_id_overrides_type_map [of
        \<open>\<lparr>type = TNumber, required = True, unique = False, bigint = True, defaultValue = None,
          references = Some \<lparr>model = ''user'', field = ''id'', onDelete = None\<rparr>\<rparr>\<close>
        \<open>\<lparr>model = ''user'', field = ''id'', onDelete = None\<rparr>\<close> emptyOptions mysqlAdapter Mysql \<open>''userId''\<close>]
    by (simp add: c numberIdOptions_def emptyOptions_def mysqlAdapter_def optUseNumberId_def
          optCamelCase_def quoted_def)
qed

text \<open>
  Claim C5, amended. For a field that does not reference an \<^verbatim>\<open>id\<close>, on every
  backend: the fragment of a \<^verbatim>\<open>number[]\<close> field is the scalar mapping of the same
  field as a \<^verbatim>\<open>number\<close> (bigint rule included) with \<^verbatim>\<open>.array()\<close> appended; the
  fragment of a \<^verbatim>\<open>string[]\<close> field is \<^verbatim>\<open>text('<name>').array()\<close>, which is the
  scalar mapping of a \<^verbatim>\<open>string\<close> with \<^verbatim>\<open>.array()\<close> appended exactly when the
  backend is sqlite or pg, or the backend is mysql and the field is neither unique nor
  has a reference. On mysql the scalar mapping of a unique field is
  \<^verbatim>\<open>varchar\<close> of length 255 and that of a field with a reference that is not unique
  is \<^verbatim>\<open>varchar\<close> of length 36; neither rule is applied to \<^verbatim>\<open>string[]\<close>.
\<close>

theorem array_mapping_amended:
  assumes \<open>\<not> referencesId attr\<close>
  shows \<open>(type attr = TNumberArray \<longrightarrow>
            getType options adapterOptions (Some db) key attr =
            appendArray (getType options adapterOptions (Some db) key (attr\<lparr>type := TNumber\<rparr>)))
       \<and> (type attr = TStringArray \<longrightarrow>
            getType options adapterOptions (Some db) key attr =
            Inr (''text('' @ quoted (convertToSnakeCase key (optCamelCase adapterOptions)) @
                 '').array()''))
       \<and> (type attr = TStringArray \<longrightarrow>
            (getType options adapterOptions (Some db) key attr =
             appendArray (getType options adapterOptions (Some db) key (attr\<lparr>type := TString\<rparr>))
             \<longleftrightarrow> db \<noteq> Mysql \<or> (\<not> unique attr \<and> references attr = None)))
       \<and> (type attr = TStringArray \<and> db = Mysql \<and> unique attr \<longrightarrow>
            appendArray (getType options adapterOptions (Some db) key (attr\<lparr>type := TString\<rparr>)) =
            Inr (''varchar('' @ quoted (convertToSnakeCase key (optCamelCase adapterOptions)) @
                 '', { length: 255 }).array()''))
       \<and> (type attr = TStringArray \<and> db = Mysql \<and> \<not> unique attr \<and> references attr \<noteq> None \<longrightarrow>
            appendArray (getType options adapterOptions (Some db) key (attr\<lparr>type := TString\<rparr>)) =
            Inr (''varchar('' @ quoted (convertToSnakeCase key (optCamelCase adapterOptions)) @
                 '', { length: 36 }).array()''))\<close>
  using assms
  by (cases db) (auto simp add: getType_def Let_def referencesId_def appendArray_def)

text \<open>
  The theorem on mysql: at a \<^verbatim>\<open>number[]\<close> field with the bigint flag, at the unique
  \<^verbatim>\<open>string[]\<close> field, and at a \<^verbatim>\<open>string[]\<close> field that references
  \<^verbatim>\<open>user.email\<close>.
\<close>

theorem array_mapping_witness:
  \<open>getType emptyOptions mysqlAdapter (Some Mysql) ''scores''
      \<lparr>type = TNumberArray, required = False, unique = False, bigint = True,
       defaultValue = None, references = None\<rparr>
     = Inr ''bigint('scores', { mode: 'number' }).array()''
   \<and> getType emptyOptions mysqlAdapter (Some Mysql) ''tags'' (uniqueTags TStringArray)
     = Inr ''text('tags').array()''
   \<and> appendArray (getType emptyOptions mysqlAdapter (Some Mysql) ''tags'' (uniqueTags TString))
     = Inr ''varchar('tags', { length: 255 }).array()''
   \<and> getType emptyOptions mysqlAdapter (Some Mysql) ''emails'' (emailsField TStringArray)
     = Inr ''text('emails').array()''
   \<and> appendArray (getType emptyOptions mysqlAdapter (Some Mysql) ''emails'' (emailsField TString))
     = Inr ''varchar('emails', { length: 36 }).array()''\<close>
proof -
  have c: \<open>convertToSnakeCase ''scores'' False = ''scores''\<close>
          \<open>convertToSnakeCase ''tags'' False = ''tags''\<close>
          \<open>convertToSnakeCase ''emails'' False = ''emails''\<close> by code_simp+
  have t: \<open>(uniqueTags TStringArray)\<lparr>type := TString\<rparr> = uniqueTags TString\<close>
          \<open>(emailsField TStringArray)\<lparr>type := TString\<rparr> = emailsField TString\<close>
    by (simp_all add: uniqueTags_def emailsField_def)
  show ?thesis
    using array_mapping_amended [of
        \<open>\<lparr>type = TNumberArray, required = False, unique = False, bigint = True,
          defaultValue = None, references = None\<rparr>\<close> emptyOptions mysqlAdapter Mysql \<open>''scores''\<close>]
      array_mapping_amended [of \<open>uniqueTags TStringArray\<close> emptyOptions mysqlAdapter Mysql \<open>''tags''\<close>]
      array_mapping_amended [of \<open>emailsField TStringArray\<close> emptyOptions mysqlAdapter Mysql \<open>''emails''\<close>]
    unfolding t
    by (simp add: c referencesId_def uniqueTags_def emailsField_def appendArray_def getType_def
          Let_def optCamelCase_def mysqlAdapter_def quoted_def)
qed

text \<open>
  Claim C5 as stated fails. On mysql, a unique field of type \<^verbatim>\<open>string[]\<close> named
  \<^verbatim>\<open>tags\<close> is mapped to \<^verbatim>\<open>text('tags').array()\<close>, while the scalar mapping of
  the same field with the array modifier appended is
  \<^verbatim>\<open>varchar('tags', { length: 255 }).array()\<close>. A \<^verbatim>\<open>string[]\<close> field
  \<^verbatim>\<open>emails\<close> that references \<^verbatim>\<open>user.email\<close> is mapped to
  \<^verbatim>\<open>text('emails').array()\<close>, while its scalar mapping with the array modifier
  appended is \<^verbatim>\<open>varchar('emails', { length: 36 }).array()\<close>.
\<close>

theorem array_mapping_counterexample:
  \<open>getType emptyOptions mysqlAdapter (optProvider mysqlAdapter) ''tags'' (uniqueTags TStringArray)
      = Inr ''text('tags').array()''
   \<and> appendArray
        (getType emptyOptions mysqlAdapter (optProvider mysqlAdapter) ''tags'' (uniqueTags TString))
      = Inr ''varchar('tags', { length: 255 }).array()''
   \<and> getType emptyOptions mysqlAdapter (optProvider mysqlAdapter) ''tags'' (uniqueTags TStringArray)
      \<noteq> appendArray
          (getType emptyOptions mysqlAdapter (optProvider mysqlAdapter) ''tags'' (uniqueTags TString))
   \<and> getType emptyOptions mysqlAdapter (optProvider mysqlAdapter) ''emails''
        (emailsField TStringArray)
      = Inr ''text('emails').array()''
   \<and> appendArray
        (getType emptyOptions mysqlAdapter (optProvider mysqlAdapter) ''emails'' (emailsField TString))
      = Inr ''varchar('emails', { length: 36 }).array()''\<close>
proof -
  have c: \<open>convertToSnakeCase ''tags'' False = ''tags''\<close>
          \<open>convertToSnakeCase ''emails'' False = ''emails''\<close> by code_simp+
  show ?thesis
    by (simp add: getType_def c Let_def optCamelCase_def optProvider_def mysqlAdapter_def
          referencesId_def uniqueTags_def emailsField_def appendArray_def quoted_def)
qed

subsection \<open>The import list\<close>

lemma trim_candidates:
  \<open>trim ''sqliteTable'' = ''sqliteTable''\<close> \<open>trim ''mysqlTable'' = ''mysqlTable''\<close>
  \<open>trim ''pgTable'' = ''pgTable''\<close> \<open>trim ''varchar, text'' = ''varchar, text''\<close>
  \<open>trim ''text'' = ''text''\<close> \<open>trim ''bigint'' = ''bigint''\<close>
  \<open>trim ''timestamp, boolean'' = ''timestamp, boolean''\<close> \<open>trim ''int'' = ''int''\<close>
  \<open>trim ''integer'' = ''integer''\<close> \<open>trim ''serial'' = ''serial''\<close> \<open>trim [] = []\<close>
  by (simp_all add: trim_def isWhiteSpace_def)

lemma importSymbols_eq:
  \<open>importSymbols db tables options =
       [providerName db @ ''Table''] @
       [if db = Mysql then ''varchar, text'' else ''text''] @
       (if db \<noteq> Sqlite \<and> hasBigint tables then [''bigint''] else []) @
       (if db \<noteq> Sqlite then [''timestamp, boolean''] else []) @
       [if db = Mysql then ''int'' else ''integer''] @
       (if db = Pg \<and> optUseNumberId options then [''serial''] else [])\<close>
  by (cases db) (simp_all add: importSymbols_def importCandidates_def trim_candidates)

lemma hasBigint_iff:
  \<open>hasBigint tables \<longleftrightarrow>
     (\<exists>tableKey tbl key attr.
        (tableKey, tbl) \<in> set tables \<and> (key, attr) \<in> set (tableFields tbl) \<and> bigint attr)\<close>
  unfolding hasBigint_def list_ex_iff by fastforce

text \<open>
  Claim C3. The import list holds, in this order: the table constructor of the backend;
  \<^verbatim>\<open>varchar, text\<close> for mysql and \<^verbatim>\<open>text\<close> otherwise; \<^verbatim>\<open>bigint\<close> exactly
  when the backend is not sqlite and some field of some table has the bigint flag;
  \<^verbatim>\<open>timestamp, boolean\<close> exactly when the backend is not sqlite; \<^verbatim>\<open>int\<close> for
  mysql and \<^verbatim>\<open>integer\<close> otherwise; \<^verbatim>\<open>serial\<close> exactly when the backend is pg
  and \<^verbatim>\<open>useNumberId\<close> is set. Blank candidates are dropped and the rest is
  joined with a comma and a space, unsorted. The three import lines are spelled out.
\<close>

theorem generateImport_symbols:
  \<open>importSymbols db tables options =
       [providerName db @ ''Table''] @
       [if db = Mysql then ''varchar, text'' else ''text''] @
       (if db \<noteq> Sqlite \<and> hasBigint tables then [''bigint''] else []) @
       (if db \<noteq> Sqlite then [''timestamp, boolean''] else []) @
       [if db = Mysql then ''int'' else ''integer''] @
       (if db = Pg \<and> optUseNumberId options then [''serial''] else [])
   \<and> generateImport db tables options =
       ''import { '' @ join '', '' (importSymbols db tables options) @
       '' } from "drizzle-orm/'' @ providerName db @ ''-core";\<newline>''
   \<and> (hasBigint tables \<longleftrightarrow>
        (\<exists>tableKey tbl key attr.
           (tableKey, tbl) \<in> set tables \<and> (key, attr) \<in> set (tableFields tbl) \<and> bigint attr))
   \<and> generateImport Sqlite tables options =
       ''import { sqliteTable, text, integer } from "drizzle-orm/sqlite-core";\<newline>''
   \<and> generateImport Mysql tables options =
       ''import { mysqlTable, varchar, text, '' @ (if hasBigint tables then ''bigint, '' else []) @
       ''timestamp, boolean, int } from "drizzle-orm/mysql-core";\<newline>''
   \<and> generateImport Pg tables options =
       ''import { pgTable, text, '' @ (if hasBigint tables then ''bigint, '' else []) @
       ''timestamp, boolean, integer'' @ (if optUseNumberId options then '', serial'' else []) @
       '' } from "drizzle-orm/pg-core";\<newline>''\<close>
proof (intro conjI)
  show \<open>importSymbols db tables options =
       [providerName db @ ''Table''] @
       [if db = Mysql then ''varchar, text'' else ''text''] @
       (if db \<noteq> Sqlite \<and> hasBigint tables then [''bigint''] else []) @
       (if db \<noteq> Sqlite then [''timestamp, boolean''] else []) @
       [if db = Mysql then ''int'' else ''integer''] @
       (if db = Pg \<and> optUseNumberId options then [''serial''] else [])\<close>
    by (rule importSymbols_eq)
  show \<open>generateImport db tables options =
       ''import { '' @ join '', '' (importSymbols db tables options) @
       '' } from "drizzle-orm/'' @ providerName db @ ''-core";\<newline>''\<close>
    by (simp add: generateImport_def)
  show \<open>hasBigint tables \<longleftrightarrow>
        (\<exists>tableKey tbl key attr.
           (tableKey, tbl) \<in> set tables \<and> (key, attr) \<in> set (tableFields tbl) \<and> bigint attr)\<close>
    by (rule hasBigint_iff)
  show \<open>generateImport Sqlite tables options =
       ''import { sqliteTable, text, integer } from "drizzle-orm/sqlite-core";\<newline>''\<close>
    by (simp add: generateImport_def importSymbols_eq)
  show \<open>generateImport Mysql tables options =
       ''import { mysqlTable, varchar, text, '' @ (if hasBigint tables then ''bigint, '' else []) @
       ''timestamp, boolean, int } from "drizzle-orm/mysql-core";\<newline>''\<close>
    by (simp add: generateImport_def importSymbols_eq)
  show \<open>generateImport Pg tables options =
       ''import { pgTable, text, '' @ (if hasBigint tables then ''bigint, '' else []) @
       ''timestamp, boolean, integer'' @ (if optUseNumberId options then '', serial'' else []) @
       '' } from "drizzle-orm/pg-core";\<newline>''\<close>
    by (simp add: generateImport_def importSymbols_eq)
qed

text \<open>
  Claim C10. With \<^verbatim>\<open>useNumberId\<close>, the primary key of sqlite and of mysql is the
  same text \<^verbatim>\<open>int("id").autoincrement.primaryKey()\<close>. The import list of sqlite
  is \<^verbatim>\<open>sqliteTable, text, integer\<close>: it holds \<^verbatim>\<open>integer\<close> and not
  \<^verbatim>\<open>int\<close>, while every sqlite table that is emitted has the \<^verbatim>\<open>int\<close>
  primary key.
\<close>

theorem sqlite_number_id_uses_unimported_int:
  assumes \<open>optUseNumberId options\<close>
  shows \<open>idColumn options Sqlite = ''int("id").autoincrement.primaryKey()''
       \<and> idColumn options Mysql = ''int("id").autoincrement.primaryKey()''
       \<and> importSymbols Sqlite tables options = [''sqliteTable'', ''text'', ''integer'']
       \<and> ''integer'' \<in> set (importSymbols Sqlite tables options)
       \<and> ''int'' \<notin> set (importSymbols Sqlite tables options)
       \<and> (\<exists>columns. tableSchema options adapterOptions Sqlite tbl =
            (if mappedTable tbl then
               Inr (''export const '' @ getModelName (modelName tbl) adapterOptions @
                    '' = sqliteTable("'' @
                    convertToSnakeCase (getModelName (modelName tbl) adapterOptions)
                      (optCamelCase adapterOptions) @ ''", {\<newline>'' @
                    tabs 5 @ ''id: int("id").autoincrement.primaryKey(),\<newline>'' @
                    tabs 5 @ join '',\<newline> '' columns @ ''\<newline>'' @ tabs 4 @ ''});'')
             else Inl TypeError))\<close>
proof -
  have id: \<open>idColumn options Sqlite = ''int("id").autoincrement.primaryKey()''\<close>
    using assms by (simp add: idColumn_def)
  have \<open>idColumn options Mysql = ''int("id").autoincrement.primaryKey()''\<close>
    using assms by (simp add: idColumn_def)
  moreover have syms: \<open>importSymbols Sqlite tables options = [''sqliteTable'', ''text'', ''integer'']\<close>
    by (simp add: importSymbols_eq)
  moreover have \<open>''integer'' \<in> set (importSymbols Sqlite tables options)\<close>
    by (simp add: syms)
  moreover have \<open>''int'' \<notin> set (importSymbols Sqlite tables options)\<close>
    by (simp add: syms)
  moreover have \<open>\<exists>columns. tableSchema options adapterOptions Sqlite tbl =
            (if mappedTable tbl then
               Inr (''export const '' @ getModelName (modelName tbl) adapterOptions @
                    '' = sqliteTable("'' @
                    convertToSnakeCase (getModelName (modelName tbl) adapterOptions)
                      (optCamelCase adapterOptions) @ ''", {\<newline>'' @
                    tabs 5 @ ''id: int("id").autoincrement.primaryKey(),\<newline>'' @
                    tabs 5 @ join '',\<newline> '' columns @ ''\<newline>'' @ tabs 4 @ ''});'')
             else Inl TypeError)\<close>
    using tableSchema_cases [of options adapterOptions Sqlite tbl] by (auto simp add: id)
  ultimately show ?thesis using id by blast
qed

text \<open>
  The theorem at options that set \<^verbatim>\<open>useNumberId\<close>.
\<close>

theorem sqlite_number_id_witness:
  \<open>optUseNumberId numberIdOptions
   \<and> idColumn numberIdOptions Sqlite = ''int("id").autoincrement.primaryKey()''
   \<and> generateImport Sqlite userSchema numberIdOptions =
       ''import { sqliteTable, text, integer } from "drizzle-orm/sqlite-core";\<newline>''\<close>
proof -
  have n: \<open>optUseNumberId numberIdOptions\<close>
    by (simp add: optUseNumberId_def numberIdOptions_def)
  show ?thesis
    using n sqlite_number_id_uses_unimported_int [OF n, of userSchema None \<open>snd (hd userSchema)\<close>]
    by (simp add: generateImport_def)
qed

subsection \<open>Column modifiers\<close>

text \<open>
  Claim C6 at a default value that is present and falsy. A boolean column with the
  default \<^verbatim>\<open>false\<close> is emitted with no default modifier, and so is a number column
  with the default \<^verbatim>\<open>0\<close>; the same boolean column with the default \<^verbatim>\<open>true\<close>
  gets \<^verbatim>\<open>.default(true)\<close>.
\<close>

theorem falsy_default_is_dropped:
  \<open>fieldColumn emptyOptions pgAdapter (Some Pg) ''banned''
      \<lparr>type = TBoolean, required = False, unique = False, bigint = False,
       defaultValue = Some (DBoolean False), references = None\<rparr>
     = Inr ''banned: boolean('banned')''
   \<and> fieldColumn emptyOptions pgAdapter (Some Pg) ''banned''
      \<lparr>type = TBoolean, required = False, unique = False, bigint = False,
       defaultValue = Some (DBoolean True), references = None\<rparr>
     = Inr ''banned: boolean('banned').default(true)''
   \<and> fieldColumn emptyOptions pgAdapter (Some Pg) ''count''
      \<lparr>type = TNumber, required = True, unique = False, bigint = False,
       defaultValue = Some (DNumber 0), references = None\<rparr>
     = Inr ''count: integer('count').notNull()''\<close>
proof -
  have c: \<open>convertToSnakeCase ''banned'' False = ''banned''\<close>
          \<open>convertToSnakeCase ''count'' False = ''count''\<close> by code_simp+
  show ?thesis
    by (simp add: fieldColumn_def getType_def c Let_def optCamelCase_def pgAdapter_def
          referencesId_def defaultModifier_def referencesModifier_def quoted_def)
qed

text \<open>
  The modifiers of a column, in the order the template has them: the default (for a
  function, a non-empty string, a non-zero number and \<^verbatim>\<open>true\<close>), then
  \<^verbatim>\<open>.notNull()\<close>, \<^verbatim>\<open>.unique()\<close> and \<^verbatim>\<open>.references(...)\<close>.
\<close>

lemma fieldColumn_modifier_order:
  assumes \<open>getType options adapterOptions (Some db) key attr = Inr frag\<close>
  shows \<open>fieldColumn options adapterOptions (Some db) key attr =
     Inr (key @ '': '' @ frag @
          (case defaultValue attr of
             None \<Rightarrow> []
           | Some (DFunction src) \<Rightarrow> ''.$defaultFn('' @ src @ '')''
           | Some (DString s) \<Rightarrow> if s = [] then [] else ''.default("'' @ s @ ''")''
           | Some (DNumber n) \<Rightarrow> if n = 0 then [] else ''.default('' @ stringOfInt n @ '')''
           | Some (DBoolean b) \<Rightarrow> if b then ''.default(true)'' else []) @
          (if required attr then ''.notNull()'' else []) @
          (if unique attr then ''.unique()'' else []) @
          (case references attr of
             None \<Rightarrow> []
           | Some r \<Rightarrow>
               ''.references(()=> '' @ getModelName (model r) adapterOptions @ ''.'' @ field r @
               '', { onDelete: '' @
               quoted (case onDelete r of None \<Rightarrow> ''cascade''
                       | Some p \<Rightarrow> if p = [] then ''cascade'' else p) @ '' })''))\<close>
  using assms
  by (simp add: fieldColumn_def defaultModifier_def referencesModifier_def
        split: option.splits default_value.splits)

subsection \<open>The primary key\<close>

text \<open>
  Claim C7. The primary key is a total function of the backend and of
  \<^verbatim>\<open>useNumberId\<close> alone. With \<^verbatim>\<open>useNumberId\<close> it is
  \<^verbatim>\<open>serial("id").primaryKey()\<close> for pg and
  \<^verbatim>\<open>int("id").autoincrement.primaryKey()\<close> for sqlite and mysql; without it,
  \<^verbatim>\<open>varchar('id', { length: 36 }).primaryKey()\<close> for mysql and
  \<^verbatim>\<open>text('id').primaryKey()\<close> for sqlite and pg. Every table that is emitted,
  whatever its fields and the options of the adapter, has this fragment as its
  \<^verbatim>\<open>id\<close> column (a table is emitted unless the type of one of its fields is
  missing from the type map).
\<close>

theorem idColumn_total:
  \<open>idColumn options db =
     (if optUseNumberId options then
        (case db of
           Pg \<Rightarrow> ''serial("id").primaryKey()''
         | Sqlite \<Rightarrow> ''int("id").autoincrement.primaryKey()''
         | Mysql \<Rightarrow> ''int("id").autoincrement.primaryKey()'')
      else
        (case db of
           Mysql \<Rightarrow> ''varchar('id', { length: 36 }).primaryKey()''
         | Sqlite \<Rightarrow> ''text('id').primaryKey()''
         | Pg \<Rightarrow> ''text('id').primaryKey()''))
   \<and> (\<exists>columns. tableSchema options adapterOptions db tbl =
          (if mappedTable tbl then
             Inr (''export const '' @ getModelName (modelName tbl) adapterOptions @ '' = '' @
                  providerName db @ ''Table("'' @
                  convertToSnakeCase (getModelName (modelName tbl) adapterOptions)
                    (optCamelCase adapterOptions) @ ''", {\<newline>'' @
                  tabs 5 @ ''id: '' @ idColumn options db @ '',\<newline>'' @
                  tabs 5 @ join '',\<newline> '' columns @ ''\<newline>'' @ tabs 4 @ ''});'')
           else Inl TypeError))\<close>
proof
  show \<open>idColumn options db =
     (if optUseNumberId options then
        (case db of
           Pg \<Rightarrow> ''serial("id").primaryKey()''
         | Sqlite \<Rightarrow> ''int("id").autoincrement.primaryKey()''
         | Mysql \<Rightarrow> ''int("id").autoincrement.primaryKey()'')
      else
        (case db of
           Mysql \<Rightarrow> ''varchar('id', { length: 36 }).primaryKey()''
         | Sqlite \<Rightarrow> ''text('id').primaryKey()''
         | Pg \<Rightarrow> ''text('id').primaryKey()''))\<close>
    by (cases db) (simp_all add: idColumn_def)
  show \<open>\<exists>columns. tableSchema options adapterOptions db tbl =
          (if mappedTable tbl then
             Inr (''export const '' @ getModelName (modelName tbl) adapterOptions @ '' = '' @
                  providerName db @ ''Table("'' @
                  convertToSnakeCase (getModelName (modelName tbl) adapterOptions)
                    (optCamelCase adapterOptions) @ ''", {\<newline>'' @
                  tabs 5 @ ''id: '' @ idColumn options db @ '',\<newline>'' @
                  tabs 5 @ join '',\<newline> '' columns @ ''\<newline>'' @ tabs 4 @ ''});'')
           else Inl TypeError)\<close>
    by (rule tableSchema_cases)
qed

subsection \<open>The end-to-end scenario\<close>

text \<open>
  The text of the scenario before formatting.
\<close>

lemma scenario_text:
  \<open>emitTables emptyOptions pgAdapter Pg (generateImport Pg userSchema emptyOptions) userSchema =
     Inr (''import { pgTable, text, timestamp, boolean, integer } from "drizzle-orm/pg-core";\<newline>'' @
          ''\<newline>export const user = pgTable("user", {\<newline>'' @
          tabs 5 @ ''id: text('id').primaryKey(),\<newline>'' @
          tabs 5 @ ''name: text('name').notNull()\<newline>'' @
          tabs 4 @ ''});\<newline>'')\<close>
  by code_simp

text \<open>
  Claim C4, amended. For that schema, on pg with empty options and no file given, the
  text handed to the formatter is the import line
  \<^verbatim>\<open>import { pgTable, text, timestamp, boolean, integer } from "drizzle-orm/pg-core";\<close>
  followed by a declaration that is, white space aside,
  \<^verbatim>\<open>export const user = pgTable("user", { id: text('id').primaryKey(), name: text('name').notNull() });\<close>
  The file name is \<^verbatim>\<open>./auth-schema.ts\<close> and \<^verbatim>\<open>overwrite\<close> is false when no
  file exists at that path.
\<close>

theorem scenario_output:
  assumes \<open>\<not> existsSync ''./auth-schema.ts''\<close>
  shows \<open>generateDrizzleSchema format existsSync userSchema emptyOptions None pgAdapter =
     Inr \<lparr>code = format
            (''import { pgTable, text, timestamp, boolean, integer } from "drizzle-orm/pg-core";\<newline>'' @
             ''\<newline>export const user = pgTable("user", {\<newline>'' @
             tabs 5 @ ''id: text('id').primaryKey(),\<newline>'' @
             tabs 5 @ ''name: text('name').notNull()\<newline>'' @
             tabs 4 @ ''});\<newline>''),
          fileName = ''./auth-schema.ts'', overwrite = False\<rparr>
   \<and> withoutWhiteSpace
        (''export const user = pgTable("user", {\<newline>'' @
         tabs 5 @ ''id: text('id').primaryKey(),\<newline>'' @
         tabs 5 @ ''name: text('name').notNull()\<newline>'' @
         tabs 4 @ ''});'')
     = withoutWhiteSpace
        ''export const user = pgTable("user", { id: text('id').primaryKey(), name: text('name').notNull() });''\<close>
proof
  have \<open>optProvider pgAdapter = Some Pg\<close>
    by (simp add: optProvider_def pgAdapter_def)
  then show \<open>generateDrizzleSchema format existsSync userSchema emptyOptions None pgAdapter =
     Inr \<lparr>code = format
            (''import { pgTable, text, timestamp, boolean, integer } from "drizzle-orm/pg-core";\<newline>'' @
             ''\<newline>export const user = pgTable("user", {\<newline>'' @
             tabs 5 @ ''id: text('id').primaryKey(),\<newline>'' @
             tabs 5 @ ''name: text('name').notNull()\<newline>'' @
             tabs 4 @ ''});\<newline>''),
          fileName = ''./auth-schema.ts'', overwrite = False\<rparr>\<close>
    using assms by (simp add: generateDrizzleSchema_def scenario_text)
  show \<open>withoutWhiteSpace
        (''export const user = pgTable("user", {\<newline>'' @
         tabs 5 @ ''id: text('id').primaryKey(),\<newline>'' @
         tabs 5 @ ''name: text('name').notNull()\<newline>'' @
         tabs 4 @ ''});'')
     = withoutWhiteSpace
        ''export const user = pgTable("user", { id: text('id').primaryKey(), name: text('name').notNull() });''\<close>
    by code_simp
qed

text \<open>
  The theorem with no formatting and an empty file system.
\<close>

theorem scenario_output_witness:
  \<open>\<not> noFile ''./auth-schema.ts''
   \<and> generateDrizzleSchema unformatted noFile userSchema emptyOptions None pgAdapter =
     Inr \<lparr>code =
            ''import { pgTable, text, timestamp, boolean, integer } from "drizzle-orm/pg-core";\<newline>'' @
            ''\<newline>export const user = pgTable("user", {\<newline>'' @
            tabs 5 @ ''id: text('id').primaryKey(),\<newline>'' @
            tabs 5 @ ''name: text('name').notNull()\<newline>'' @
            tabs 4 @ ''});\<newline>'',
          fileName = ''./auth-schema.ts'', overwrite = False\<rparr>\<close>
proof -
  have n: \<open>\<not> noFile ''./auth-schema.ts''\<close> by (simp add: noFile_def)
  show ?thesis
    using n scenario_output [where existsSync = noFile and format = unformatted, OF n]
    by (simp add: unformatted_def)
qed

text \<open>
  Claim C4 as stated fails. For the schema with the one table \<^verbatim>\<open>user\<close> and its
  required string field \<^verbatim>\<open>name\<close>, on pg with empty options, the generated text
  (left as it is by the formatter) does not contain the line
  \<^verbatim>\<open>import { pgTable, text } from "drizzle-orm/pg-core";\<close>, with or without its white
  space: the import list of pg always has \<^verbatim>\<open>timestamp, boolean\<close> and
  \<^verbatim>\<open>integer\<close>.
\<close>

theorem scenario_import_line_counterexample:
  \<open>generateDrizzleSchema unformatted noFile userSchema emptyOptions None pgAdapter =
     Inr \<lparr>code =
            ''import { pgTable, text, timestamp, boolean, integer } from "drizzle-orm/pg-core";\<newline>'' @
            ''\<newline>export const user = pgTable("user", {\<newline>'' @
            tabs 5 @ ''id: text('id').primaryKey(),\<newline>'' @
            tabs 5 @ ''name: text('name').notNull()\<newline>'' @
            tabs 4 @ ''});\<newline>'',
          fileName = ''./auth-schema.ts'', overwrite = False\<rparr>
   \<and> \<not> sublist ''import { pgTable, text } from "drizzle-orm/pg-core";''
        (''import { pgTable, text, timestamp, boolean, integer } from "drizzle-orm/pg-core";\<newline>'' @
         ''\<newline>export const user = pgTable("user", {\<newline>'' @
         tabs 5 @ ''id: text('id').primaryKey(),\<newline>'' @
         tabs 5 @ ''name: text('name').notNull()\<newline>'' @
         tabs 4 @ ''});\<newline>'')
   \<and> \<not> sublist (withoutWhiteSpace ''import { pgTable, text } from "drizzle-orm/pg-core";'')
        (withoutWhiteSpace
          (''import { pgTable, text, timestamp, boolean, integer } from "drizzle-orm/pg-core";\<newline>'' @
           ''\<newline>export const user = pgTable("user", {\<newline>'' @
           tabs 5 @ ''id: text('id').primaryKey(),\<newline>'' @
           tabs 5 @ ''name: text('name').notNull()\<newline>'' @
           tabs 4 @ ''});\<newline>''))\<close>
proof (intro conjI)
  show \<open>generateDrizzleSchema unformatted noFile userSchema emptyOptions None pgAdapter =
     Inr \<lparr>code =
            ''import { pgTable, text, timestamp, boolean, integer } from "drizzle-orm/pg-core";\<newline>'' @
            ''\<newline>export const user = pgTable("user", {\<newline>'' @
            tabs 5 @ ''id: text('id').primaryKey(),\<newline>'' @
            tabs 5 @ ''name: text('name').notNull()\<newline>'' @
            tabs 4 @ ''});\<newline>'',
          fileName = ''./auth-schema.ts'', overwrite = False\<rparr>\<close>
    by code_simp
  show \<open>\<not> sublist ''import { pgTable, text } from "drizzle-orm/pg-core";''
        (''import { pgTable, text, timestamp, boolean, integer } from "drizzle-orm/pg-core";\<newline>'' @
         ''\<newline>export const user = pgTable("user", {\<newline>'' @
         tabs 5 @ ''id: text('id').primaryKey(),\<newline>'' @
         tabs 5 @ ''name: text('name').notNull()\<newline>'' @
         tabs 4 @ ''});\<newline>'')\<close>
    by code_simp
  show \<open>\<not> sublist (withoutWhiteSpace ''import { pgTable, text } from "drizzle-orm/pg-core";'')
        (withoutWhiteSpace
          (''import { pgTable, text, timestamp, boolean, integer } from "drizzle-orm/pg-core";\<newline>'' @
           ''\<newline>export const user = pgTable("user", {\<newline>'' @
           tabs 5 @ ''id: text('id').primaryKey(),\<newline>'' @
           tabs 5 @ ''name: text('name').notNull()\<newline>'' @
           tabs 4 @ ''});\<newline>''))\<close>
    by code_simp
qed

end
